theory Spec2Isabelle
  imports Main
begin

section \<open>Padding information and the abstract tag classes of mutagen/\_tags.py\<close>

subsection \<open>Errors\<close>

text \<open>
  The exceptions that the module can raise, as values. \<open>ValueError\<close> carries its
  message. \<open>ZeroDivisionError\<close> is what Python's \<open>%\<close> raises on a zero divisor,
  \<open>TypeError\<close> what a call raises whose arguments do not fit the signature, and
  \<open>UserError\<close> stands for any exception of a user-supplied callback.
\<close>

datatype error =
    ValueError string
  | ZeroDivisionError
  | NotImplementedError
  | TypeError
  | UserError string

subsection \<open>PaddingInfo\<close>

text \<open>
  The six attributes that \<open>__init__\<close> stores. Python integers are unbounded, so they
  are \<open>int\<close>; the two optional attributes are \<open>int option\<close>. The attribute
  \<open>size\<close> is named \<open>size_attr\<close> here, since \<open>size\<close> is a constant of HOL.
\<close>

record PaddingInfo =
  size_diff :: int
  new_tail_size :: int
  new_head_size :: "int option"
  fs_block_size :: "int option"
  padding :: int
  size_attr :: int

definition PaddingInfo_init :: "int \<Rightarrow> int \<Rightarrow> int option \<Rightarrow> int option \<Rightarrow> PaddingInfo" where
  "PaddingInfo_init padding_arg new_tail_size_arg new_head_size_arg fs_block_size_arg =
     (let s1 = - padding_arg;
          s2 = new_tail_size_arg;
          s3 = new_head_size_arg;
          s4 = fs_block_size_arg;
          s5 = - s1;
          s6 = s2
      in \<lparr> size_diff = s1, new_tail_size = s2, new_head_size = s3,
           fs_block_size = s4, padding = s5, size_attr = s6 \<rparr>)"

definition get_padding_for_sharing :: "PaddingInfo \<Rightarrow> int" where
  "get_padding_for_sharing self =
     (let high = 1024 * 10 + size_attr self div 100;
          low = 1024 + size_attr self div 1000
      in if padding self \<ge> 0 then
           (if padding self > high then low else padding self)
         else low)"

definition get_default_padding :: "PaddingInfo \<Rightarrow> int" where
  "get_default_padding self = get_padding_for_sharing self"

text \<open>
  Python's \<open>a % b\<close> on integers: it raises on a zero divisor, and otherwise is the
  remainder of floor division, which is what \<open>mod\<close> on \<open>int\<close> is.
\<close>

definition py_mod :: "int \<Rightarrow> int \<Rightarrow> error + int" where
  "py_mod a b = (if b = 0 then Inl ZeroDivisionError else Inr (a mod b))"

definition get_padding_for_storage :: "PaddingInfo \<Rightarrow> error + int" where
  "get_padding_for_storage self =
     (case new_head_size self of
        None \<Rightarrow> Inl (ValueError ''get_padding_for_storage requires new_head_size'')
      | Some nhs \<Rightarrow>
          (case fs_block_size self of
             None \<Rightarrow> Inl (ValueError ''get_padding_for_storage requries fs_block_size'')
           | Some fbs \<Rightarrow>
               (let old_head_size = nhs - size_diff self in
                case py_mod old_head_size fbs of
                  Inl e \<Rightarrow> Inl e
                | Inr old_align \<Rightarrow>
                    (case py_mod nhs fbs of
                       Inl e \<Rightarrow> Inl e
                     | Inr m \<Rightarrow>
                         (let res = fbs - m;
                              res' = res + old_align
                          in py_mod res' fbs)))))"

text \<open>
  The callback of \<open>_get_padding\<close> is arbitrary user code: it may raise, and it may
  have effects of its own. It is a function of the PaddingInfo and of a state \<open>'s\<close>
  that it may change, so that calling it is observable. Without a callback nothing
  touches that state.
\<close>

type_synonym 's user_func = "PaddingInfo \<Rightarrow> 's \<Rightarrow> (error + int) \<times> 's"

definition priv_get_padding ::
  "PaddingInfo \<Rightarrow> 's user_func option \<Rightarrow> 's \<Rightarrow> (error + int) \<times> 's" where
  "priv_get_padding self user_func s =
     (case user_func of
        None \<Rightarrow> (Inr (get_default_padding self), s)
      | Some f \<Rightarrow> f self s)"

subsection \<open>Values, instances and open files\<close>

text \<open>
  The arguments that reach the classes \<open>Tags\<close> and \<open>Metadata\<close> are untyped Python
  values; the ones that matter here are \<open>None\<close>, a string (a path), an integer (a
  format option) and a file object, which is identified by the name of its file.
  Keyword arguments are a dictionary, kept as an association list in call order. An
  instance is its attribute dictionary. An operation returns a value or raises, and
  leaves behind the instance and the list of the files that are open at that moment.
\<close>

datatype pyval = PyNone | PyStr string | PyInt int | PyFile string

type_synonym kwargs = "(string \<times> pyval) list"

type_synonym pyobject = "string \<rightharpoonup> pyval"

type_synonym outcome = "(error + pyval) \<times> pyobject \<times> string list"

type_synonym py_method = "pyobject \<Rightarrow> pyval list \<Rightarrow> kwargs \<Rightarrow> string list \<Rightarrow> outcome"

text \<open>
  A function or method is called with a list of positional arguments and a dictionary
  of keyword arguments. Python binds them to the parameters of the \<open>def\<close> before
  the body runs, and raises \<open>TypeError\<close> when they do not fit. The functions of this
  module that take arguments have the parameters \<open>(self, filething)\<close>, where
  \<open>filething\<close> may have a default and \<open>**kwargs\<close> may follow. \<open>self\<close> is taken by
  the instance, so a keyword \<open>self\<close> never fits; \<open>filething\<close> takes the one
  positional argument or the keyword of that name, not both, or its default; every
  other keyword goes to \<open>**kwargs\<close>, and fits only if the \<open>def\<close> has it; a second
  positional argument never fits.
\<close>

definition py_bind ::
  "pyval option \<Rightarrow> bool \<Rightarrow> pyval list \<Rightarrow> kwargs \<Rightarrow> error + (pyval \<times> kwargs)" where
  "py_bind dflt var_keywords args kwargs =
     (let others = filter (\<lambda>kv. fst kv \<noteq> ''filething'') kwargs in
      if map_of kwargs ''self'' \<noteq> None then Inl TypeError
      else if \<not> var_keywords \<and> others \<noteq> [] then Inl TypeError
      else
        (case args of
           [] \<Rightarrow>
             (case map_of kwargs ''filething'' of
                Some v \<Rightarrow> Inr (v, others)
              | None \<Rightarrow>
                  (case dflt of
                     None \<Rightarrow> Inl TypeError
                   | Some d \<Rightarrow> Inr (d, others)))
         | [x] \<Rightarrow>
             (case map_of kwargs ''filething'' of
                Some v \<Rightarrow> Inl TypeError
              | None \<Rightarrow> Inr (x, others))
         | x # y # zs \<Rightarrow> Inl TypeError))"

text \<open>
  Modelled from the spec: the decorator \<open>loadfile\<close> of \<open>mutagen/_util.py\<close>, which
  \<open>_tags.py\<close> imports and whose code is not among the sources. It is the wrapper
  that receives the call of a decorated method. The specification describes the
  source of an operation, its first argument, as a path, an open handle or nothing:
  when a path is given the handle is opened for the operation and closed on every exit
  path, normal or abnormal; a handle of the caller is borrowed and never closed. The
  specification gives the wrapper no other part and names no failure of its own, so
  the arguments of the call reach the wrapped function as they were passed, with the
  handle in place of the path, and what the function returns or raises is what the
  call returns or raises. The arguments \<open>writable\<close> and \<open>create\<close> of the decorator
  have no part in that description and are left out.
\<close>

definition loadfile :: "py_method \<Rightarrow> py_method" where
  "loadfile func self args kwargs opened =
     (case args of
        PyStr path # rest \<Rightarrow>
          (case func self (PyFile path # rest) kwargs (path # opened) of
             (r, self', opened') \<Rightarrow> (r, self', remove1 path opened'))
      | _ \<Rightarrow> func self args kwargs opened)"

subsection \<open>Tags and Metadata\<close>


text \<open>
  The three functions that the class body defines before \<open>loadfile\<close> wraps them:
  \<open>load(self, filething, **kwargs)\<close>, \<open>save(self, filething=None, **kwargs)\<close> and
  \<open>delete(self, filething=None)\<close>. The body of each is a single \<open>raise\<close>.
\<close>

definition load_undecorated :: py_method where
  "load_undecorated self args kwargs opened =
     (case py_bind None True args kwargs of
        Inl e \<Rightarrow> (Inl e, self, opened)
      | Inr (filething, kw) \<Rightarrow> (Inl NotImplementedError, self, opened))"



text \<open>The methods of the class are the wrapped functions.\<close>

definition Metadata_load :: py_method where
  "Metadata_load = loadfile load_undecorated"



type_synonym load_method = py_method

text \<open>
  \<open>self.load\<close> is looked up on the instance, so a subclass supplies its own; the
  method is a parameter of the constructor, and \<open>Metadata_load\<close> is the one of
  the base class. A tuple or a dictionary is true when it is not empty. The
  constructor returns the new instance, or raises what \<open>load\<close> raises.
\<close>

definition Metadata_init ::
  "load_method \<Rightarrow> pyval list \<Rightarrow> kwargs \<Rightarrow> string list \<Rightarrow> (error + pyobject) \<times> string list" where
  "Metadata_init load args kwargs opened =
     (let self = Map.empty in
      if args \<noteq> [] \<or> kwargs \<noteq> [] then
        (case load self args kwargs opened of
           (Inl e, self', opened') \<Rightarrow> (Inl e, opened')
         | (Inr v, self', opened') \<Rightarrow> (Inr self', opened'))
      else (Inr self, opened))"

section \<open>Properties of PaddingInfo\<close>

text \<open>
  C1. For every integer \<open>size_diff\<close> and every non-negative \<open>new_tail_size\<close>, the
  sharing strategy on the PaddingInfo constructed from them returns
  \<open>padding_before = - size_diff\<close> when \<open>0 \<le> padding_before \<le> high\<close>, where
  \<open>high = 10240 + new_tail_size div 100\<close> (so a previous padding of exactly \<open>high\<close>
  is kept), and
  \<open>low = 1024 + new_tail_size div 1000\<close> otherwise. The result is never negative.
  The three vectors of the specification give 500, 1025 and 1024.
\<close>

theorem sharing_padding_value:
  assumes "0 \<le> nts"
  shows "size_diff (PaddingInfo_init (- sd) nts nhs fbs) = sd
       \<and> get_padding_for_sharing (PaddingInfo_init (- sd) nts nhs fbs) =
           (if 0 \<le> - sd \<and> - sd \<le> 10240 + nts div 100 then - sd
            else 1024 + nts div 1000)
       \<and> 0 \<le> get_padding_for_sharing (PaddingInfo_init (- sd) nts nhs fbs)
       \<and> get_padding_for_sharing
            (PaddingInfo_init (10240 + nts div 100) nts nhs fbs) = 10240 + nts div 100
       \<and> get_padding_for_sharing (PaddingInfo_init (- (- 500)) 200 nhs fbs) = 500
       \<and> get_padding_for_sharing (PaddingInfo_init (- (- 70000)) 1000 nhs fbs) = 1025
       \<and> get_padding_for_sharing (PaddingInfo_init (- 300) 100 nhs fbs) = 1024"
proof -
  have low: "0 \<le> 1024 + nts div 1000"
    using assms by (simp add: pos_imp_zdiv_nonneg_iff)
  have high: "0 \<le> 10240 + nts div 100"
    using assms by (simp add: pos_imp_zdiv_nonneg_iff)
  have val: "get_padding_for_sharing (PaddingInfo_init (- sd) nts nhs fbs) =
           (if 0 \<le> - sd \<and> - sd \<le> 10240 + nts div 100 then - sd
            else 1024 + nts div 1000)"
    by (simp add: get_padding_for_sharing_def PaddingInfo_init_def Let_def)
  have nonneg: "0 \<le> get_padding_for_sharing (PaddingInfo_init (- sd) nts nhs fbs)"
    unfolding val using low by simp
  have "get_padding_for_sharing (PaddingInfo_init (10240 + nts div 100) nts nhs fbs) =
          (if 0 \<le> 10240 + nts div 100 then 10240 + nts div 100 else 1024 + nts div 1000)"
    by (simp add: get_padding_for_sharing_def PaddingInfo_init_def Let_def)
  with high have bound:
    "get_padding_for_sharing (PaddingInfo_init (10240 + nts div 100) nts nhs fbs) =
       10240 + nts div 100"
    by (simp only: if_True)
  have v1: "get_padding_for_sharing (PaddingInfo_init (- (- 500)) 200 nhs fbs) = 500"
    by (simp add: get_padding_for_sharing_def PaddingInfo_init_def Let_def)
  have v2: "get_padding_for_sharing (PaddingInfo_init (- (- 70000)) 1000 nhs fbs) = 1025"
    by (simp add: get_padding_for_sharing_def PaddingInfo_init_def Let_def)
  have v3: "get_padding_for_sharing (PaddingInfo_init (- 300) 100 nhs fbs) = 1024"
    by (simp add: get_padding_for_sharing_def PaddingInfo_init_def Let_def)
  have sd: "size_diff (PaddingInfo_init (- sd) nts nhs fbs) = sd"
    by (simp add: PaddingInfo_init_def Let_def)
  from sd val nonneg bound v1 v2 v3 show ?thesis by blast
qed

theorem sharing_padding_value_witness:
  "(0::int) \<le> 200
   \<and> get_padding_for_sharing (PaddingInfo_init (- (- 10242)) 200 None None) = 10242
   \<and> get_padding_for_sharing (PaddingInfo_init (- (- 10243)) 200 None None) = 1024
   \<and> get_padding_for_sharing (PaddingInfo_init (- 1) 200 None None) = 1024"
  using sharing_padding_value [of 200 "- 10242" None None]
        sharing_padding_value [of 200 "- 10243" None None]
        sharing_padding_value [of 200 1 None None]
  by simp

text \<open>
  C9. On every constructed PaddingInfo the stored attributes agree:
  \<open>size_diff\<close> is the negated constructor argument \<open>padding\<close>, the attribute
  \<open>padding\<close> is the negated \<open>size_diff\<close> (hence the argument again), and \<open>size\<close>
  is \<open>new_tail_size\<close>; the two optional arguments are stored as given.
\<close>

theorem init_views_agree:
  "size_diff (PaddingInfo_init pad nts nhs fbs) = - pad
   \<and> padding (PaddingInfo_init pad nts nhs fbs) = - size_diff (PaddingInfo_init pad nts nhs fbs)
   \<and> size_diff (PaddingInfo_init pad nts nhs fbs) = - padding (PaddingInfo_init pad nts nhs fbs)
   \<and> padding (PaddingInfo_init pad nts nhs fbs) = pad
   \<and> size_attr (PaddingInfo_init pad nts nhs fbs) = new_tail_size (PaddingInfo_init pad nts nhs fbs)
   \<and> new_tail_size (PaddingInfo_init pad nts nhs fbs) = nts
   \<and> new_head_size (PaddingInfo_init pad nts nhs fbs) = nhs
   \<and> fs_block_size (PaddingInfo_init pad nts nhs fbs) = fbs"
  by (simp add: PaddingInfo_init_def Let_def)

text \<open>
  C2. When \<open>new_head_size\<close> and a positive \<open>fs_block_size\<close> are present, the
  storage strategy returns
  \<open>((fs_block_size - new_head_size mod fs_block_size)
      + (new_head_size - size_diff) mod fs_block_size) mod fs_block_size\<close>,
  with the non-negative remainder of a positive modulus; this holds for every
  \<open>new_head_size\<close>, in particular for every non-negative one. The vector
  \<open>fs_block_size = 4096\<close>, \<open>new_head_size = 5000\<close>, \<open>size_diff = - 200\<close> gives 200.
\<close>

theorem storage_padding_value:
  assumes "new_head_size p = Some nhs" and "fs_block_size p = Some fbs" and "0 < fbs"
  shows "get_padding_for_storage p =
           Inr (((fbs - nhs mod fbs) + ((nhs - size_diff p) mod fbs)) mod fbs)
       \<and> get_padding_for_storage (PaddingInfo_init 200 nts (Some 5000) (Some 4096)) = Inr 200"
proof -
  have gen: "get_padding_for_storage p =
           Inr (((fbs - nhs mod fbs) + ((nhs - size_diff p) mod fbs)) mod fbs)"
    using assms by (simp add: get_padding_for_storage_def py_mod_def Let_def)
  have vec: "get_padding_for_storage (PaddingInfo_init 200 nts (Some 5000) (Some 4096)) = Inr 200"
    by (simp add: get_padding_for_storage_def py_mod_def PaddingInfo_init_def Let_def)
  from gen vec show ?thesis by simp
qed

theorem storage_padding_value_witness:
  "get_padding_for_storage (PaddingInfo_init 200 0 (Some 5000) (Some 4096)) = Inr 200
   \<and> get_padding_for_storage (PaddingInfo_init (- 3) 7 (Some 10) (Some 8)) = Inr 5"
  using storage_padding_value [of "PaddingInfo_init 200 0 (Some 5000) (Some 4096)" 5000 4096 0]
        storage_padding_value [of "PaddingInfo_init (- 3) 7 (Some 10) (Some 8)" 10 8 0]
  by (simp add: PaddingInfo_init_def Let_def)

text \<open>
  C3. When \<open>new_head_size\<close> and a positive \<open>fs_block_size\<close> are present, the
  storage strategy returns a value, and that value lies in \<open>[0, fs_block_size)\<close>,
  whatever \<open>size_diff\<close> is, also when \<open>new_head_size - size_diff\<close> is negative.
\<close>

theorem storage_padding_range:
  assumes "new_head_size p = Some nhs" and "fs_block_size p = Some fbs" and "0 < fbs"
  shows "\<exists>r. get_padding_for_storage p = Inr r \<and> 0 \<le> r \<and> r < fbs"
  using assms by (simp add: get_padding_for_storage_def py_mod_def Let_def)

theorem storage_padding_range_witness:
  "\<exists>r. get_padding_for_storage (PaddingInfo_init (- 5000) 0 (Some 10) (Some 4096)) = Inr r
       \<and> 0 \<le> r \<and> r < 4096"
  using storage_padding_range [of "PaddingInfo_init (- 5000) 0 (Some 10) (Some 4096)" 10 4096]
  by (simp add: PaddingInfo_init_def Let_def)

text \<open>
  C4. The storage strategy raises \<open>ValueError\<close> exactly when \<open>new_head_size\<close> or
  \<open>fs_block_size\<close> is absent. The message names the missing attribute, the first
  one that is checked when both are missing; no value is returned then. With both
  attributes present no \<open>ValueError\<close> is raised.
\<close>

theorem storage_padding_config_error:
  "(new_head_size p = None \<longrightarrow>
      get_padding_for_storage p =
        Inl (ValueError ''get_padding_for_storage requires new_head_size''))
   \<and> (new_head_size p \<noteq> None \<and> fs_block_size p = None \<longrightarrow>
      get_padding_for_storage p =
        Inl (ValueError ''get_padding_for_storage requries fs_block_size''))
   \<and> ((\<exists>msg. get_padding_for_storage p = Inl (ValueError msg)) \<longleftrightarrow>
        (new_head_size p = None \<or> fs_block_size p = None))
   \<and> (new_head_size p = None \<or> fs_block_size p = None \<longrightarrow>
        (\<forall>r. get_padding_for_storage p \<noteq> Inr r))"
  by (auto simp add: get_padding_for_storage_def py_mod_def Let_def
           split: option.splits sum.splits if_splits)

theorem storage_padding_config_error_witness:
  "get_padding_for_storage (PaddingInfo_init 0 0 None (Some 4096)) =
     Inl (ValueError ''get_padding_for_storage requires new_head_size'')
   \<and> get_padding_for_storage (PaddingInfo_init 0 0 None None) =
     Inl (ValueError ''get_padding_for_storage requires new_head_size'')
   \<and> get_padding_for_storage (PaddingInfo_init 0 0 (Some 5000) None) =
     Inl (ValueError ''get_padding_for_storage requries fs_block_size'')
   \<and> \<not> (\<exists>msg. get_padding_for_storage (PaddingInfo_init 0 0 (Some 5000) (Some 0)) =
          Inl (ValueError msg))"
  using storage_padding_config_error [of "PaddingInfo_init 0 0 None (Some 4096)"]
        storage_padding_config_error [of "PaddingInfo_init 0 0 None None"]
        storage_padding_config_error [of "PaddingInfo_init 0 0 (Some 5000) None"]
        storage_padding_config_error [of "PaddingInfo_init 0 0 (Some 5000) (Some 0)"]
  by (simp add: PaddingInfo_init_def Let_def)

text \<open>
  C5. Without a callback, \<open>_get_padding\<close> returns what \<open>get_default_padding\<close>
  returns, which is what \<open>get_padding_for_sharing\<close> returns on the same
  PaddingInfo; nothing else happens.
\<close>

theorem default_resolution:
  "priv_get_padding p None s = (Inr (get_default_padding p), s)
   \<and> get_default_padding p = get_padding_for_sharing p
   \<and> fst (priv_get_padding p None s) = Inr (get_padding_for_sharing p)
   \<and> snd (priv_get_padding p None s) = s"
  by (simp add: priv_get_padding_def get_default_padding_def)

text \<open>
  C6. With a callback \<open>f\<close>, \<open>_get_padding\<close> is the call \<open>f p\<close>: its result and
  its effects are those of that one call. A callback that records its arguments
  has recorded exactly \<open>p\<close>, once, afterwards. The result is passed on as it is,
  negative or huge, and an exception of the callback is the exception of
  \<open>_get_padding\<close>.
\<close>

theorem user_strategy_unmodified:
  "priv_get_padding p (Some f) s = f p s
   \<and> priv_get_padding p
        (Some (\<lambda>q (log, t). case f q t of (r, t') \<Rightarrow> (r, (log @ [q], t')))) (log0, s) =
       (fst (f p s), (log0 @ [p], snd (f p s)))
   \<and> priv_get_padding p (Some (\<lambda>q t. (Inr (- 5), t))) s = (Inr (- 5), s)
   \<and> priv_get_padding p (Some (\<lambda>q t. (Inr (10 ^ 30), t))) s = (Inr (10 ^ 30), s)
   \<and> priv_get_padding p (Some (\<lambda>q t. (Inl e, t))) s = (Inl e, s)"
  by (simp add: priv_get_padding_def split: prod.splits)

section \<open>Properties of Tags and Metadata\<close>

subsection \<open>What a call of each function does\<close>








subsection \<open>The claims\<close>




text \<open>
  C8. Constructing a \<open>Metadata\<close> without any argument succeeds and gives an
  instance without attributes. No \<open>load\<close> method, whatever it is, is called, and
  no file is opened.
\<close>

theorem empty_construction:
  "Metadata_init load [] [] opened = (Inr Map.empty, opened)"
  by (simp add: Metadata_init_def)

theorem empty_construction_witness:
  "Metadata_init Metadata_load [] [] [''b.ogg''] = (Inr Map.empty, [''b.ogg''])
   \<and> Metadata_init (\<lambda>self args kwargs opened. (Inr PyNone, self, ''a.mp3'' # opened))
         [] [] [] = (Inr Map.empty, [])"
  using empty_construction [of Metadata_load "[''b.ogg'']"]
        empty_construction [of "\<lambda>self args kwargs opened.
           (Inr PyNone, self, ''a.mp3'' # opened)" "[]"]
  by simp




end
